theory Spec2Isabelle
  imports Main "HOL-Library.Word"
begin

unbundle bit_operations_syntax

section \<open>Failures and text formatting\<close>

text \<open>
  Every \<^verbatim>\<open>throw soci_error(msg)\<close> of the sources is the value \<open>soci_error msg\<close>.
  \<open>length_error\<close> is the \<^verbatim>\<open>std::length_error\<close> of a \<^verbatim>\<open>std::string\<close> constructor asked
  for more than \<^verbatim>\<open>max_size()\<close> bytes, and \<open>undefined_behaviour\<close> marks a read or write
  outside an object, which C++ leaves undefined.
\<close>

datatype failure = soci_error string | length_error | undefined_behaviour

text \<open>Decimal output of \<^verbatim>\<open>operator<<\<close> on integers.\<close>

definition digit_char :: "nat \<Rightarrow> char" where
  "digit_char d = ''0123456789'' ! d"

fun show_nat :: "nat \<Rightarrow> string" where
  "show_nat n = (if n < 10 then [digit_char n] else show_nat (n div 10) @ [digit_char (n mod 10)])"

declare show_nat.simps [simp del]

definition show_int :: "int \<Rightarrow> string" where
  "show_int i = (if i < 0 then CHR ''-'' # show_nat (nat (- i)) else show_nat (nat i))"

section \<open>Firebird backend: \<^verbatim>\<open>src/backends/firebird/common.cpp\<close>\<close>

subsection \<open>Column descriptors and type codes\<close>

text \<open>
  \<^verbatim>\<open>XSQLVAR\<close> is declared in the Firebird client header \<^verbatim>\<open>ibase.h\<close>; the fields the
  functions below read are kept: \<^verbatim>\<open>ISC_SHORT\<close> is a signed 16-bit integer (a word read with \<open>sint\<close>),
  \<^verbatim>\<open>sqldata\<close> points to the bytes of the host buffer.
\<close>

record XSQLVAR =
  sqltype :: "16 word"
  sqlscale :: "16 word"
  sqllen :: "16 word"
  sqldata :: string

text \<open>The type codes of \<^verbatim>\<open>ibase.h\<close>. Bit 0 of \<^verbatim>\<open>sqltype\<close> is the nullability flag.\<close>

definition SQL_VARYING :: int where "SQL_VARYING = 448"
definition SQL_TEXT :: int where "SQL_TEXT = 452"
definition SQL_LONG :: int where "SQL_LONG = 496"
definition SQL_SHORT :: int where "SQL_SHORT = 500"
definition SQL_TIMESTAMP :: int where "SQL_TIMESTAMP = 510"
definition SQL_TYPE_TIME :: int where "SQL_TYPE_TIME = 560"
definition SQL_TYPE_DATE :: int where "SQL_TYPE_DATE = 570"
definition SQL_INT64 :: int where "SQL_INT64 = 580"

text \<open>\<^verbatim>\<open>type & ~1\<close>: the \<^verbatim>\<open>short\<close> is promoted to \<^verbatim>\<open>int\<close> and the flag bit is cleared.\<close>

definition base_type :: "16 word \<Rightarrow> int" where
  "base_type t = sint t AND NOT 1"

subsection \<open>Calendar values and the platform\<close>

text \<open>
  \<^verbatim>\<open>std::tm\<close>: the nine standard fields, each a C \<^verbatim>\<open>int\<close>. The values stored here come
  from \<^verbatim>\<open>unsigned short\<close> variables, so no \<^verbatim>\<open>int\<close> arithmetic below can overflow.
\<close>

record tm =
  tm_sec :: int
  tm_min :: int
  tm_hour :: int
  tm_mday :: int
  tm_mon :: int
  tm_year :: int
  tm_wday :: int
  tm_yday :: int
  tm_isdst :: int

text \<open>\<^verbatim>\<open>std::memset(&t, 0, sizeof(t))\<close>\<close>

definition zero_tm :: tm where
  "zero_tm = \<lparr>tm_sec = 0, tm_min = 0, tm_hour = 0, tm_mday = 0, tm_mon = 0, tm_year = 0,
     tm_wday = 0, tm_yday = 0, tm_isdst = 0\<rparr>"

text \<open>
  The value \<^verbatim>\<open>sscanf\<close> returns and the values it stores: \<open>EOF\<close> (\<open>-1\<close>) when the
  input ends before the first conversion, otherwise the converted values in order, whose
  number is the return value.
\<close>

datatype scan_result = EOF | Converted "16 word list"

text \<open>
  What the functions take from outside this file, as parameters: the sizes and object
  representations of the C++ implementation, the Firebird client's packed date and time
  encodings (\<^verbatim>\<open>isc_encode_*\<close>, \<^verbatim>\<open>isc_decode_*\<close>), the C library's \<^verbatim>\<open>sscanf\<close> behind
  \<^verbatim>\<open>soci::sscanf\<close> (called with the input and the format), and the decimal codec
  \<^verbatim>\<open>parse_decimal\<close>/\<^verbatim>\<open>format_decimal\<close> of \<^verbatim>\<open>firebird/common.h\<close> (called with the width in bits
  of the integer type). \<open>heap_limit\<close> is the largest request \<^verbatim>\<open>new char[]\<close> can satisfy,
  \<open>fresh_byte\<close> the indeterminate contents of fresh storage and \<open>indeterminate\<close> the value
  of an uninitialised \<^verbatim>\<open>unsigned short\<close>.
\<close>

record fb_platform =
  sizeof_tm :: nat
  tm_object :: "tm \<Rightarrow> string"
  big_endian :: bool
  heap_limit :: nat
  fresh_byte :: "nat \<Rightarrow> char"
  indeterminate :: "16 word"
  isc_encode_timestamp :: "tm \<Rightarrow> string"
  isc_encode_sql_time :: "tm \<Rightarrow> string"
  isc_encode_sql_date :: "tm \<Rightarrow> string"
  isc_decode_timestamp :: "string \<Rightarrow> tm \<Rightarrow> tm"
  isc_decode_sql_time :: "string \<Rightarrow> tm \<Rightarrow> tm"
  isc_decode_sql_date :: "string \<Rightarrow> tm \<Rightarrow> tm"
  sscanf :: "string \<Rightarrow> string \<Rightarrow> scan_result"
  parse_decimal :: "nat \<Rightarrow> string \<Rightarrow> XSQLVAR \<Rightarrow> string \<Rightarrow> failure option \<times> string"
  format_decimal :: "nat \<Rightarrow> string \<Rightarrow> 16 word \<Rightarrow> failure + string"

subsection \<open>Buffers\<close>

text \<open>
  A host buffer is the list of its bytes. An operation on a buffer returns the failure, if
  any, together with the buffer as it is when the operation ends, so that what a failed
  call has written stays visible.
\<close>

type_synonym 'e outcome = "'e option \<times> string"

definition and_then :: "failure outcome \<Rightarrow> (string \<Rightarrow> failure outcome) \<Rightarrow> failure outcome" where
  "and_then r f = (case r of (None, b) \<Rightarrow> f b | (Some e, b) \<Rightarrow> (Some e, b))"

text \<open>
  \<^verbatim>\<open>memcpy(dst + off, src, n)\<close> and \<^verbatim>\<open>memset(dst + off, c, n)\<close>; both are undefined outside
  the objects. The offset of \<^verbatim>\<open>memset\<close> is signed, as the \<^verbatim>\<open>short\<close> added to the pointer is.
\<close>

definition memcpy :: "string \<Rightarrow> nat \<Rightarrow> string \<Rightarrow> nat \<Rightarrow> failure outcome" where
  "memcpy dst off src n =
     (if off + n \<le> length dst \<and> n \<le> length src
      then (None, take off dst @ take n src @ drop (off + n) dst)
      else (Some undefined_behaviour, dst))"

definition memset :: "string \<Rightarrow> int \<Rightarrow> char \<Rightarrow> nat \<Rightarrow> failure outcome" where
  "memset dst off c n =
     (if 0 \<le> off \<and> nat off + n \<le> length dst
      then (None, take (nat off) dst @ replicate n c @ drop (nat off + n) dst)
      else (Some undefined_behaviour, dst))"

text \<open>The two bytes of a \<^verbatim>\<open>short\<close> (\<^verbatim>\<open>sizeof(short)\<close> is 2) and the value they hold.\<close>

definition short_object :: "fb_platform \<Rightarrow> 16 word \<Rightarrow> string" where
  "short_object P w =
     (let lo = char_of (uint w); hi = char_of (uint w div 256)
      in if big_endian P then [hi, lo] else [lo, hi])"

definition object_short :: "fb_platform \<Rightarrow> string \<Rightarrow> 16 word" where
  "object_short P bs =
     (let a = of_char (bs ! 0); b = of_char (bs ! 1)
      in if big_endian P then 256 * a + b else a + 256 * b)"

text \<open>A \<^verbatim>\<open>short\<close> converted to \<^verbatim>\<open>std::size_t\<close> (64 bits): sign extension.\<close>

definition size_t_of_short :: "16 word \<Rightarrow> 64 word" where
  "size_t_of_short w = scast w"

subsection \<open>\<^verbatim>\<open>allocBuffer\<close>\<close>

definition allocBuffer_size :: "fb_platform \<Rightarrow> XSQLVAR \<Rightarrow> 64 word" where
  "allocBuffer_size P var =
     (let type = base_type (sqltype var)
      in if type = SQL_VARYING then size_t_of_short (sqllen var) + 2
         else if type = SQL_TIMESTAMP \<or> type = SQL_TYPE_TIME \<or> type = SQL_TYPE_DATE
         then word_of_nat (sizeof_tm P)
         else size_t_of_short (sqllen var))"

datatype alloc_failure = bad_alloc

definition allocBuffer :: "fb_platform \<Rightarrow> XSQLVAR \<Rightarrow> alloc_failure + string" where
  "allocBuffer P var =
     (let n = unat (allocBuffer_size P var)
      in if heap_limit P < n then Inl bad_alloc else Inr (map (fresh_byte P) [0..<n]))"

subsection \<open>\<^verbatim>\<open>tmEncode\<close> and \<^verbatim>\<open>tmDecode\<close>\<close>

definition unexpected_type_msg :: "16 word \<Rightarrow> string" where
  "unexpected_type_msg type = ''Unexpected type of date/time field ('' @ show_int (sint type) @ '')''"

text \<open>The encoders write the packed value at the start of \<open>dst\<close>.\<close>

definition tmEncode :: "fb_platform \<Rightarrow> 16 word \<Rightarrow> tm \<Rightarrow> string \<Rightarrow> failure outcome" where
  "tmEncode P type src dst =
     (let t = base_type type
      in if t = SQL_TIMESTAMP
         then memcpy dst 0 (isc_encode_timestamp P src) (length (isc_encode_timestamp P src))
         else if t = SQL_TYPE_TIME
         then memcpy dst 0 (isc_encode_sql_time P src) (length (isc_encode_sql_time P src))
         else if t = SQL_TYPE_DATE
         then memcpy dst 0 (isc_encode_sql_date P src) (length (isc_encode_sql_date P src))
         else (Some (soci_error (unexpected_type_msg type)), dst))"

definition tmDecode :: "fb_platform \<Rightarrow> 16 word \<Rightarrow> string \<Rightarrow> tm \<Rightarrow> failure + tm" where
  "tmDecode P type src dst =
     (let t = base_type type
      in if t = SQL_TIMESTAMP then Inr (isc_decode_timestamp P src dst)
         else if t = SQL_TYPE_TIME then Inr (isc_decode_sql_time P src dst)
         else if t = SQL_TYPE_DATE then Inr (isc_decode_sql_date P src dst)
         else Inl (soci_error (unexpected_type_msg type)))"

subsection \<open>\<^verbatim>\<open>setTextParam\<close>\<close>

text \<open>A \<^verbatim>\<open>char const *\<close> written to a stream: the bytes before the first NUL.\<close>

definition c_str :: "string \<Rightarrow> string" where
  "c_str s = takeWhile (\<lambda>c. c \<noteq> CHR 0x00) s"

definition too_long_msg :: "string \<Rightarrow> 64 word \<Rightarrow> XSQLVAR \<Rightarrow> string" where
  "too_long_msg s size' var =
     ''Value '' @ [CHR 0x22] @ c_str s @ [CHR 0x22] @ '' is too long ('' @ show_nat (unat size')
       @ '' bytes) to be stored in column of size '' @ show_int (sint (sqllen var)) @ '' bytes''"

text \<open>
  The local variables of the two parsing branches. \<^verbatim>\<open>sscanf\<close> stores its converted values
  through the pointers it is given, in order, and leaves the other variables as they are.
\<close>

record ts_locals =
  l_year :: "16 word"
  l_month :: "16 word"
  l_day :: "16 word"
  l_hour :: "16 word"
  l_min :: "16 word"
  l_sec :: "16 word"

record time_locals =
  t_hour :: "16 word"
  t_min :: "16 word"
  t_sec :: "16 word"

fun store_converted :: "('v \<Rightarrow> 'l \<Rightarrow> 'l) list \<Rightarrow> 'v list \<Rightarrow> 'l \<Rightarrow> 'l" where
  "store_converted (p # ps) (v # vs) l = store_converted ps vs (p v l)"
| "store_converted _ _ l = l"

definition soci_sscanf ::
  "fb_platform \<Rightarrow> string \<Rightarrow> string \<Rightarrow> (16 word \<Rightarrow> 'l \<Rightarrow> 'l) list \<Rightarrow> 'l \<Rightarrow> int \<times> 'l" where
  "soci_sscanf P s fmt ptrs l =
     (case sscanf P s fmt of
        EOF \<Rightarrow> (- 1, l)
      | Converted vs \<Rightarrow> (int (length vs), store_converted ptrs vs l))"

definition ymd_ptrs :: "(16 word \<Rightarrow> ts_locals \<Rightarrow> ts_locals) list" where
  "ymd_ptrs = [\<lambda>v l. l\<lparr>l_year := v\<rparr>, \<lambda>v l. l\<lparr>l_month := v\<rparr>, \<lambda>v l. l\<lparr>l_day := v\<rparr>]"

definition hms_ptrs :: "(16 word \<Rightarrow> ts_locals \<Rightarrow> ts_locals) list" where
  "hms_ptrs = [\<lambda>v l. l\<lparr>l_hour := v\<rparr>, \<lambda>v l. l\<lparr>l_min := v\<rparr>, \<lambda>v l. l\<lparr>l_sec := v\<rparr>]"

definition time_ptrs :: "(16 word \<Rightarrow> time_locals \<Rightarrow> time_locals) list" where
  "time_ptrs = [\<lambda>v l. l\<lparr>t_hour := v\<rparr>, \<lambda>v l. l\<lparr>t_min := v\<rparr>, \<lambda>v l. l\<lparr>t_sec := v\<rparr>]"

text \<open>Lines 140 to 153: the three patterns of the timestamp and date branch.\<close>

definition scan_timestamp :: "fb_platform \<Rightarrow> string \<Rightarrow> failure + ts_locals" where
  "scan_timestamp P s =
     (let u = indeterminate P;
          l0 = \<lparr>l_year = u, l_month = u, l_day = u, l_hour = u, l_min = u, l_sec = u\<rparr>;
          (r1, l1) = soci_sscanf P s ''%hu-%hu-%hu %hu:%hu:%hu'' (ymd_ptrs @ hms_ptrs) l0
      in if r1 \<noteq> 6
         then (let (r2, l2) = soci_sscanf P s ''%hu-%hu-%huT%hu:%hu:%hu'' (ymd_ptrs @ hms_ptrs) l1
               in if r2 \<noteq> 6
                  then (let l3 = l2\<lparr>l_hour := 0, l_min := 0, l_sec := 0\<rparr>;
                            (r3, l4) = soci_sscanf P s ''%hu-%hu-%hu'' ymd_ptrs l3
                        in if r3 \<noteq> 3
                           then Inl (soci_error ''Could not parse timestamp value.'')
                           else Inr l4)
                  else Inr l2)
         else Inr l1)"

text \<open>Lines 167 to 171: the pattern of the time branch.\<close>

definition scan_time :: "fb_platform \<Rightarrow> string \<Rightarrow> failure + time_locals" where
  "scan_time P s =
     (let u = indeterminate P;
          l0 = \<lparr>t_hour = u, t_min = u, t_sec = u\<rparr>;
          (r, l1) = soci_sscanf P s ''%hu:%hu:%hu'' time_ptrs l0
      in if r \<noteq> 3 then Inl (soci_error ''Could not parse timestamp value.'') else Inr l1)"

text \<open>Lines 154 to 161 and 172 to 176: the calendar value built from the variables.\<close>

definition timestamp_tm :: "ts_locals \<Rightarrow> tm" where
  "timestamp_tm l =
     zero_tm\<lparr>tm_year := uint (l_year l) - 1900, tm_mon := uint (l_month l) - 1,
       tm_mday := uint (l_day l), tm_hour := uint (l_hour l), tm_min := uint (l_min l),
       tm_sec := uint (l_sec l)\<rparr>"

definition time_only_tm :: "time_locals \<Rightarrow> tm" where
  "time_only_tm l =
     zero_tm\<lparr>tm_hour := uint (t_hour l), tm_min := uint (t_min l), tm_sec := uint (t_sec l)\<rparr>"

text \<open>
  Lines 162 to 163 and 177 to 178: the whole \<^verbatim>\<open>std::tm\<close> is copied into the buffer, then
  the packed value is encoded over its first bytes.
\<close>

definition store_tm :: "fb_platform \<Rightarrow> XSQLVAR \<Rightarrow> tm \<Rightarrow> string \<Rightarrow> failure outcome" where
  "store_tm P var t buf =
     and_then (memcpy buf 0 (tm_object P t) (sizeof_tm P)) (tmEncode P (sqltype var) t)"

definition setTextParam ::
  "fb_platform \<Rightarrow> string \<Rightarrow> 64 word \<Rightarrow> string \<Rightarrow> XSQLVAR \<Rightarrow> failure outcome" where
  "setTextParam P s size' buf var =
     (let ty = base_type (sqltype var)
      in if ty = SQL_VARYING \<or> ty = SQL_TEXT
         then if size_t_of_short (sqllen var) < size'
              then (Some (soci_error (too_long_msg s size' var)), buf)
              else (let sz = (ucast size' :: 16 word)
                    in if ty = SQL_VARYING
                       then and_then (memcpy buf 0 (short_object P sz) 2)
                              (\<lambda>b. memcpy b 2 s (unat (size_t_of_short sz)))
                       else and_then (memcpy buf 0 s (unat (size_t_of_short sz)))
                              (\<lambda>b. if sint sz < sint (sqllen var)
                                    then memset b (sint sz) CHR '' ''
                                           (nat (sint (sqllen var) - sint sz))
                                    else (None, b)))
         else if ty = SQL_SHORT then parse_decimal P 16 buf var s
         else if ty = SQL_LONG then parse_decimal P 32 buf var s
         else if ty = SQL_INT64 then parse_decimal P 64 buf var s
         else if ty = SQL_TIMESTAMP \<or> ty = SQL_TYPE_DATE
         then (case scan_timestamp P s of
                 Inl e \<Rightarrow> (Some e, buf)
               | Inr l \<Rightarrow> store_tm P var (timestamp_tm l) buf)
         else if ty = SQL_TYPE_TIME
         then (case scan_time P s of
                 Inl e \<Rightarrow> (Some e, buf)
               | Inr l \<Rightarrow> store_tm P var (time_only_tm l) buf)
         else (Some (soci_error ''Unexpected string type.''), buf))"

subsection \<open>\<^verbatim>\<open>getTextParam\<close>\<close>

text \<open>
  \<^verbatim>\<open>std::string(data + offset, size)\<close> with a \<^verbatim>\<open>short\<close> size: a negative size becomes a
  count beyond \<^verbatim>\<open>max_size()\<close>, which the constructor refuses.
\<close>

definition std_string :: "string \<Rightarrow> nat \<Rightarrow> 16 word \<Rightarrow> failure + string" where
  "std_string data offset size' =
     (if sint size' < 0 then Inl length_error
      else if length data < offset + nat (sint size') then Inl undefined_behaviour
      else Inr (take (nat (sint size')) (drop offset data)))"

definition getTextParam :: "fb_platform \<Rightarrow> XSQLVAR \<Rightarrow> failure + string" where
  "getTextParam P var =
     (let ty = base_type (sqltype var)
      in if ty = SQL_VARYING
         then if length (sqldata var) < 2 then Inl undefined_behaviour
              else std_string (sqldata var) 2 (object_short P (take 2 (sqldata var)))
         else if ty = SQL_TEXT then std_string (sqldata var) 0 (sqllen var)
         else if ty = SQL_SHORT then format_decimal P 16 (sqldata var) (sqlscale var)
         else if ty = SQL_LONG then format_decimal P 32 (sqldata var) (sqlscale var)
         else if ty = SQL_INT64 then format_decimal P 64 (sqldata var) (sqlscale var)
         else Inl (soci_error ''Unexpected string type''))"

subsection \<open>\<^verbatim>\<open>copy_from_blob\<close>\<close>

text \<open>
  \<^verbatim>\<open>firebird_blob_backend\<close> is defined in another file of the backend. Its three calls are
  parameters: \<open>blob_assign\<close> builds the blob object of the session from the
  \<^verbatim>\<open>ISC_QUAD\<close> stored in the buffer, \<open>get_len\<close> gives the length of the blob and
  \<open>read_from_start b n\<close> the bytes it stores into the destination when asked for \<open>n\<close>;
  the number of these bytes is the value the call returns. Each may throw.
\<close>

record 'b blob_backend =
  blob_assign :: "string \<Rightarrow> failure + 'b"
  get_len :: "'b \<Rightarrow> failure + nat"
  read_from_start :: "'b \<Rightarrow> nat \<Rightarrow> failure + string"

definition blob_short_read_msg :: "nat \<Rightarrow> nat \<Rightarrow> string" where
  "blob_short_read_msg len_read len_total =
     ''Read '' @ show_nat len_read @ '' bytes instead of expected '' @ show_nat len_total
       @ '' from Firebird text blob object''"

text \<open>\<^verbatim>\<open>out.resize(n)\<close>: cut, or filled up with NUL bytes.\<close>

definition resize :: "string \<Rightarrow> nat \<Rightarrow> string" where
  "resize out n = take n out @ replicate (n - length out) (CHR 0x00)"

definition copy_from_blob :: "'b blob_backend \<Rightarrow> string \<Rightarrow> string \<Rightarrow> failure outcome" where
  "copy_from_blob B buf out =
     (case blob_assign B buf of
        Inl e \<Rightarrow> (Some e, out)
      | Inr blob \<Rightarrow>
          (case get_len B blob of
             Inl e \<Rightarrow> (Some e, out)
           | Inr len_total \<Rightarrow>
               (let out1 = resize out len_total
                in case read_from_start B blob len_total of
                     Inl e \<Rightarrow> (Some e, out1)
                   | Inr bytes \<Rightarrow>
                       and_then (memcpy out1 0 bytes (length bytes))
                         (\<lambda>out2. if length bytes \<noteq> len_total
                                  then (Some (soci_error
                                          (blob_short_read_msg (length bytes) len_total)), out2)
                                  else (None, out2)))))"

section \<open>PostgreSQL backend: \<^verbatim>\<open>src/backends/postgresql/session.cpp\<close>\<close>

subsection \<open>The client library\<close>

text \<open>
  The calls into libpq are parameters over a type \<open>'c\<close> of connection states and a type
  \<open>'r\<close> of results. \<^verbatim>\<open>PQexec\<close> returns the result and the connection as the round trip
  leaves it; \<^verbatim>\<open>PQescapeStringConn\<close> gives the escaped bytes and the error code.
  \<^verbatim>\<open>postgresql_result::check_for_data\<close> is defined in another file of the backend: it is
  a parameter too, and may throw.
\<close>

datatype ConnStatusType = CONNECTION_OK | CONNECTION_BAD | CONNECTION_OTHER

record ('c, 'r) libpq =
  PQstatus :: "'c \<Rightarrow> ConnStatusType"
  PQexec :: "'c \<Rightarrow> string \<Rightarrow> 'r \<times> 'c"
  PQntuples :: "'r \<Rightarrow> int"
  PQgetvalue :: "'r \<Rightarrow> int \<Rightarrow> int \<Rightarrow> string"
  PQescapeStringConn :: "'c \<Rightarrow> string \<Rightarrow> string \<times> int"
  check_for_data :: "'r \<Rightarrow> string \<Rightarrow> failure + bool"

text \<open>
  The same library with a log: the connection state carries the list of the commands
  sent through \<^verbatim>\<open>PQexec\<close> so far.
\<close>

definition logged :: "('c, 'r) libpq \<Rightarrow> ('c \<times> string list, 'r) libpq" where
  "logged L =
     \<lparr>PQstatus = (\<lambda>(c, log). PQstatus L c),
      PQexec = (\<lambda>(c, log) q. let (r, c') = PQexec L c q in (r, (c', log @ [q]))),
      PQntuples = PQntuples L,
      PQgetvalue = PQgetvalue L,
      PQescapeStringConn = (\<lambda>(c, log). PQescapeStringConn L c),
      check_for_data = check_for_data L\<rparr>"

subsection \<open>\<^verbatim>\<open>is_connected\<close>\<close>

definition is_connected :: "('c, 'r) libpq \<Rightarrow> 'c \<Rightarrow> bool \<times> 'c" where
  "is_connected L conn =
     (if PQstatus L conn \<noteq> CONNECTION_OK then (False, conn)
      else (let (r, conn1) = PQexec L conn ''/* ping */''
            in (PQstatus L conn1 = CONNECTION_OK, conn1)))"

subsection \<open>\<^verbatim>\<open>quote\<close> and \<^verbatim>\<open>get_schema_names\<close>\<close>

definition quote :: "('c, 'r) libpq \<Rightarrow> 'c \<Rightarrow> string \<Rightarrow> string" where
  "quote L conn s =
     (let (escaped, error_code) = PQescapeStringConn L conn s;
          len_esc = (if error_code > 0 then 0 else length escaped)
      in [CHR 0x27] @ take len_esc escaped @ [CHR 0x27])"

text \<open>
  The loop of lines 191 to 216 over \<^verbatim>\<open>search_path_content\<close>, with its three variables
  \<^verbatim>\<open>quoted\<close>, \<^verbatim>\<open>schema\<close> and \<^verbatim>\<open>schema_names\<close>.
\<close>

fun tokenize :: "string \<Rightarrow> bool \<Rightarrow> string \<Rightarrow> string list \<Rightarrow> string \<times> string list" where
  "tokenize [] quoted schema schema_names = (schema, schema_names)"
| "tokenize (c # rest) quoted schema schema_names =
     (if c = CHR 0x22 then tokenize rest (\<not> quoted) schema schema_names
      else if c = CHR '','' \<or> c = CHR '' ''
      then if \<not> quoted
           then if c = CHR '',''
                then tokenize rest quoted [] (schema_names @ [schema])
                else tokenize rest quoted schema schema_names
           else tokenize rest quoted (schema @ [c]) schema_names
      else tokenize rest quoted (schema @ [c]) schema_names)"

text \<open>Lines 191 to 218: the loop and the last entry.\<close>

definition split_search_path :: "string \<Rightarrow> string list" where
  "split_search_path search_path_content =
     (let (schema, schema_names) = tokenize search_path_content False [] []
      in if schema \<noteq> [] then schema_names @ [schema] else schema_names)"

definition default_search_path :: string where
  \<open>default_search_path = ''"$user", public''\<close>

text \<open>Lines 219 to 235: the placeholder is resolved, and every name quoted, in order.\<close>

fun resolve_names ::
  "('c, 'r) libpq \<Rightarrow> 'c \<Rightarrow> string list \<Rightarrow> failure + string list \<times> 'c" where
  "resolve_names L conn [] = Inr ([], conn)"
| "resolve_names L conn (schema_name # names) =
     (if schema_name = ''$user''
      then (let (current_user_result, conn1) = PQexec L conn ''SELECT current_user''
            in case check_for_data L current_user_result ''current_user is not defined'' of
                 Inl e \<Rightarrow> Inl e
               | Inr has_data \<Rightarrow>
                   (let name1 = (if has_data \<and> PQntuples L current_user_result > 0
                                 then PQgetvalue L current_user_result 0 0 else schema_name);
                        q = quote L conn1 name1
                    in case resolve_names L conn1 names of
                         Inl e \<Rightarrow> Inl e
                       | Inr (qs, conn2) \<Rightarrow> Inr (q # qs, conn2)))
      else (let q = quote L conn schema_name
            in case resolve_names L conn names of
                 Inl e \<Rightarrow> Inl e
               | Inr (qs, conn2) \<Rightarrow> Inr (q # qs, conn2)))"

definition get_schema_names :: "('c, 'r) libpq \<Rightarrow> 'c \<Rightarrow> failure + string list \<times> 'c" where
  "get_schema_names L conn =
     (let (search_path_result, conn1) = PQexec L conn ''SHOW search_path''
      in case check_for_data L search_path_result ''search_path doesn't exist'' of
           Inl e \<Rightarrow> Inl e
         | Inr has_data \<Rightarrow>
             if has_data
             then (let content0 = (if PQntuples L search_path_result > 0
                                   then PQgetvalue L search_path_result 0 0 else []);
                       content = (if content0 = [] then default_search_path else content0)
                   in resolve_names L conn1 (split_search_path content))
             else Inr ([], conn1))"

subsection \<open>\<^verbatim>\<open>set_tcp_user_timeout\<close>\<close>

text \<open>
  The function has three bodies, chosen by the preprocessor. The system calls are
  parameters over a type \<open>'w\<close> of states of the socket layer: each returns its C return
  value and the state it leaves. \<open>last_error\<close> is the text the message takes from
  \<^verbatim>\<open>strerror(errno)\<close> or \<^verbatim>\<open>WSAGetLastError()\<close>. \<^verbatim>\<open>cstring_to_integer\<close> of
  \<^verbatim>\<open>soci-cstrtoi.h\<close> is a parameter as well: \<open>None\<close> where it returns false, otherwise
  the \<^verbatim>\<open>int\<close> it stores.
\<close>

datatype build = Windows | With_TCP_USER_TIMEOUT | Without_support

datatype sockopt = TCP_MAXRT | TCP_USER_TIMEOUT

datatype sa_family = AF_UNIX | AF_INET | AF_INET6

record 'w socket_layer =
  build :: build
  cstring_to_integer :: "string \<Rightarrow> 32 word option"
  getsockname :: "'w \<Rightarrow> int \<Rightarrow> (int \<times> sa_family) \<times> 'w"
  setsockopt :: "'w \<Rightarrow> int \<Rightarrow> sockopt \<Rightarrow> 32 word \<Rightarrow> int \<times> 'w"
  last_error :: "'w \<Rightarrow> string"

datatype syscall = Getsockname int | Setsockopt int sockopt "32 word"

text \<open>The same layer with a log of the system calls made.\<close>

definition traced :: "'w socket_layer \<Rightarrow> ('w \<times> syscall list) socket_layer" where
  "traced S =
     \<lparr>build = build S,
      cstring_to_integer = cstring_to_integer S,
      getsockname = (\<lambda>(w, log) sock.
         let (r, w') = getsockname S w sock in (r, (w', log @ [Getsockname sock]))),
      setsockopt = (\<lambda>(w, log) sock opt v.
         let (r, w') = setsockopt S w sock opt v in (r, (w', log @ [Setsockopt sock opt v]))),
      last_error = (\<lambda>(w, log). last_error S w)\<rparr>"

definition invalid_timeout_msg :: "string \<Rightarrow> string" where
  "invalid_timeout_msg timeoutStr =
     ''Invalid value for tcp_user_timeout connection option: '' @ [CHR 0x22] @ timeoutStr
       @ [CHR 0x22] @ ''.''"

definition set_tcp_user_timeout ::
  "'w socket_layer \<Rightarrow> int \<Rightarrow> string \<Rightarrow> 'w \<Rightarrow> failure option \<times> 'w" where
  "set_tcp_user_timeout S sock timeoutStr w =
     (case cstring_to_integer S (c_str timeoutStr) of
        None \<Rightarrow> (Some (soci_error (invalid_timeout_msg timeoutStr)), w)
      | Some timeoutMs \<Rightarrow>
          if timeoutMs = 0 then (None, w)
          else if sint timeoutMs < 0 then (None, w)
          else (case build S of
                  Windows \<Rightarrow>
                    if 2 ^ 31 \<le> sint timeoutMs + 500 then (Some undefined_behaviour, w)
                    else (let timeoutSec0 = (word_of_int ((sint timeoutMs + 500) div 1000) :: 32 word);
                              timeoutSec = (if timeoutSec0 = 0 then 1 else timeoutSec0);
                              (r, w1) = setsockopt S w sock TCP_MAXRT timeoutSec
                          in if r \<noteq> 0
                             then (Some (soci_error
                                     (''Failed to set TCP_MAXRT option on the socket: WinSock error ''
                                        @ last_error S w1 @ ''.'')), w1)
                             else (None, w1))
                | With_TCP_USER_TIMEOUT \<Rightarrow>
                    (let ((r, family), w1) = getsockname S w sock
                     in if r \<noteq> 0
                        then (Some (soci_error
                                (''Failed to get socket address: '' @ last_error S w1 @ ''.'')), w1)
                        else if family = AF_UNIX then (None, w1)
                        else (let (r2, w2) = setsockopt S w1 sock TCP_USER_TIMEOUT timeoutMs
                              in if r2 \<noteq> 0
                                 then (Some (soci_error
                                         (''Failed to set TCP_USER_TIMEOUT option on the socket: ''
                                            @ last_error S w2 @ ''.'')), w2)
                                 else (None, w2)))
                | Without_support \<Rightarrow> (None, w)))"

section \<open>Sample instances of the parameters\<close>

text \<open>
  The theorems below hold for all values of the parameters. To run the functions on
  concrete inputs, this section gives one instance of each: the C library's \<^verbatim>\<open>sscanf\<close>
  for the directives the formats of this file use, a little-endian LP64 platform with the
  Firebird client's day-number and time encodings, a PostgreSQL session, and a socket layer.
\<close>

subsection \<open>\<^verbatim>\<open>sscanf\<close> for \<^verbatim>\<open>%hu\<close>, white space and ordinary characters\<close>

definition is_space :: "char \<Rightarrow> bool" where
  "is_space c = (c \<in> set [CHR '' '', CHR 0x09, CHR 0x0A, CHR 0x0B, CHR 0x0C, CHR 0x0D])"

definition is_digit :: "char \<Rightarrow> bool" where
  "is_digit c = (c \<in> set ''0123456789'')"

definition dec_value :: "string \<Rightarrow> int" where
  "dec_value ds = foldl (\<lambda>n c. 10 * n + (of_char c - 48)) 0 ds"

datatype conversion = Input_failure | Matching_failure | Matched "16 word" string

text \<open>
  \<^verbatim>\<open>%hu\<close>: white space is skipped, then an optional sign and a nonempty run of digits are
  read as by \<^verbatim>\<open>strtoul\<close> (which saturates at \<^verbatim>\<open>ULONG_MAX\<close> and negates modulo \<open>2 ^ 64\<close>), and
  the value is stored as an \<^verbatim>\<open>unsigned short\<close>.
\<close>

definition conv_hu :: "string \<Rightarrow> conversion" where
  "conv_hu inp =
     (let i1 = dropWhile is_space inp
      in if i1 = [] then Input_failure
         else (let neg = (hd i1 = CHR ''-'');
                   i2 = (if hd i1 = CHR ''-'' \<or> hd i1 = CHR ''+'' then tl i1 else i1);
                   ds = takeWhile is_digit i2
               in if ds = [] then Matching_failure
                  else (let v = dec_value ds;
                            u = (if 2 ^ 64 \<le> v then 2 ^ 64 - 1
                                 else if neg then (2 ^ 64 - v) mod 2 ^ 64 else v)
                        in Matched (word_of_int u) (dropWhile is_digit i2))))"

datatype directive = Conv_hu | White_space | Ordinary char

fun directives :: "string \<Rightarrow> directive list" where
  "directives (a # b # c # fmt) =
     (if a = CHR ''%'' \<and> b = CHR ''h'' \<and> c = CHR ''u'' then Conv_hu # directives fmt
      else (if is_space a then White_space else Ordinary a) # directives (b # c # fmt))"
| "directives (a # fmt) = (if is_space a then White_space else Ordinary a) # directives fmt"
| "directives [] = []"

fun run_directives :: "directive list \<Rightarrow> string \<Rightarrow> 16 word list \<Rightarrow> scan_result" where
  "run_directives [] inp vs = Converted vs"
| "run_directives (White_space # ds) inp vs = run_directives ds (dropWhile is_space inp) vs"
| "run_directives (Ordinary c # ds) inp vs =
     (case inp of
        [] \<Rightarrow> if vs = [] then EOF else Converted vs
      | x # rest \<Rightarrow> if x = c then run_directives ds rest vs else Converted vs)"
| "run_directives (Conv_hu # ds) inp vs =
     (case conv_hu inp of
        Input_failure \<Rightarrow> if vs = [] then EOF else Converted vs
      | Matching_failure \<Rightarrow> Converted vs
      | Matched v rest \<Rightarrow> run_directives ds rest (vs @ [v]))"

definition c_sscanf :: "string \<Rightarrow> string \<Rightarrow> scan_result" where
  "c_sscanf s fmt = run_directives (directives fmt) (c_str s) []"

subsection \<open>A little-endian LP64 platform\<close>

definition le_bytes :: "nat \<Rightarrow> int \<Rightarrow> string" where
  "le_bytes n i = map (\<lambda>k. char_of (i div 256 ^ k)) [0..<n]"

definition le_value :: "string \<Rightarrow> int" where
  "le_value bs = foldr (\<lambda>c n. of_char c + 256 * n) bs 0"

definition le_signed :: "nat \<Rightarrow> string \<Rightarrow> int" where
  "le_signed n bs =
     (let v = le_value (take n bs) in if 2 ^ (8 * n - 1) \<le> v then v - 2 ^ (8 * n) else v)"

text \<open>C division truncates.\<close>

definition cdiv :: "int \<Rightarrow> int \<Rightarrow> int" where
  "cdiv a b = sgn a * sgn b * (\<bar>a\<bar> div \<bar>b\<bar>)"

text \<open>
  \<^verbatim>\<open>ISC_DATE\<close> is the number of days since 17 November 1858, \<^verbatim>\<open>ISC_TIME\<close> the time of day
  in units of 1/10000 second; \<^verbatim>\<open>ISC_TIMESTAMP\<close> is the one followed by the other, four bytes
  each.
\<close>

definition nday :: "tm \<Rightarrow> int" where
  "nday t =
     (let month0 = tm_mon t + 1; year0 = tm_year t + 1900;
          month = (if month0 > 2 then month0 - 3 else month0 + 9);
          year = (if month0 > 2 then year0 else year0 - 1);
          c = cdiv year 100; ya = year - 100 * c
      in cdiv (146097 * c) 4 + cdiv (1461 * ya) 4 + cdiv (153 * month + 2) 5 + tm_mday t
           + 1721119 - 2400001)"

definition ntime :: "tm \<Rightarrow> int" where
  "ntime t = ((tm_hour t * 60 + tm_min t) * 60 + tm_sec t) * 10000"

definition ndate :: "int \<Rightarrow> tm \<Rightarrow> tm" where
  "ndate n t =
     (let n1 = n - (1721119 - 2400001);
          century = cdiv (4 * n1 - 1) 146097;
          n2 = 4 * n1 - 1 - 146097 * century;
          day1 = cdiv n2 4;
          n3 = cdiv (4 * day1 + 3) 1461;
          day2 = cdiv (4 * day1 + 3 - 1461 * n3 + 4) 4;
          month = cdiv (5 * day2 - 3) 153;
          day = cdiv (5 * day2 - 3 - 153 * month + 5) 5;
          year = 100 * century + n3
      in t\<lparr>tm_mday := day,
           tm_mon := (if month < 10 then month + 3 else month - 9) - 1,
           tm_year := (if month < 10 then year else year + 1) - 1900\<rparr>)"

definition ntime_decode :: "int \<Rightarrow> tm \<Rightarrow> tm" where
  "ntime_decode n t =
     t\<lparr>tm_hour := cdiv n (3600 * 10000), tm_min := cdiv n (60 * 10000) mod 60,
       tm_sec := cdiv n 10000 mod 60\<rparr>"

text \<open>A decimal codec for columns of scale 0, enough to run the numeric branches.\<close>

definition sample_parse_decimal ::
  "nat \<Rightarrow> string \<Rightarrow> XSQLVAR \<Rightarrow> string \<Rightarrow> failure option \<times> string" where
  "sample_parse_decimal width buf var s =
     (let neg = (s \<noteq> [] \<and> hd s = CHR ''-'');
          ds = (if neg then tl s else s)
      in if ds = [] \<or> \<not> list_all is_digit ds
         then (Some (soci_error ''Could not parse decimal value.''), buf)
         else memcpy buf 0
                (le_bytes (width div 8) (if neg then - dec_value ds else dec_value ds))
                (width div 8))"

definition sample_format_decimal :: "nat \<Rightarrow> string \<Rightarrow> 16 word \<Rightarrow> failure + string" where
  "sample_format_decimal width data scale =
     (if length data < width div 8 then Inl undefined_behaviour
      else Inr (show_int (le_signed (width div 8) data)))"

definition linux_x86_64 :: fb_platform where
  "linux_x86_64 =
     \<lparr>sizeof_tm = 56,
      tm_object = (\<lambda>t. concat (map (le_bytes 4)
                      [tm_sec t, tm_min t, tm_hour t, tm_mday t, tm_mon t, tm_year t,
                       tm_wday t, tm_yday t, tm_isdst t]) @ replicate 20 (CHR 0x00)),
      big_endian = False,
      heap_limit = 65536,
      fresh_byte = (\<lambda>i. CHR 0xCD),
      indeterminate = 0xBEEF,
      isc_encode_timestamp = (\<lambda>t. le_bytes 4 (nday t) @ le_bytes 4 (ntime t)),
      isc_encode_sql_time = (\<lambda>t. le_bytes 4 (ntime t)),
      isc_encode_sql_date = (\<lambda>t. le_bytes 4 (nday t)),
      isc_decode_timestamp =
        (\<lambda>src t. ntime_decode (le_value (take 4 (drop 4 src))) (ndate (le_signed 4 src) t)),
      isc_decode_sql_time = (\<lambda>src t. ntime_decode (le_value (take 4 src)) t),
      isc_decode_sql_date = (\<lambda>src t. ndate (le_signed 4 src) t),
      sscanf = c_sscanf,
      parse_decimal = sample_parse_decimal,
      format_decimal = sample_format_decimal\<rparr>"

subsection \<open>A PostgreSQL session\<close>

text \<open>
  The connection state is the cached status and whether the socket is still open; the
  server answers the two queries of \<^verbatim>\<open>get_schema_names\<close> with the given search path and
  user name.
\<close>

datatype pg_result = Tuples "string list list" | Empty_query | Fatal_error

definition sample_libpq :: "string \<Rightarrow> string \<Rightarrow> (ConnStatusType \<times> bool, pg_result) libpq" where
  "sample_libpq search_path user =
     \<lparr>PQstatus = fst,
      PQexec = (\<lambda>(st, socket_open) q.
         if st = CONNECTION_OK \<and> socket_open
         then (if q = ''SHOW search_path'' then Tuples [[search_path]]
               else if q = ''SELECT current_user'' then Tuples [[user]]
               else Empty_query, (st, socket_open))
         else (Fatal_error, (CONNECTION_BAD, socket_open))),
      PQntuples = (\<lambda>r. case r of Tuples rows \<Rightarrow> int (length rows) | _ \<Rightarrow> 0),
      PQgetvalue = (\<lambda>r i j. case r of Tuples rows \<Rightarrow> rows ! nat i ! nat j | _ \<Rightarrow> []),
      PQescapeStringConn = (\<lambda>c s. (concat (map (\<lambda>x. if x = CHR 0x27 then [x, x] else [x]) s), 0)),
      check_for_data = (\<lambda>r errMsg. case r of
         Tuples rows \<Rightarrow> Inr True | Empty_query \<Rightarrow> Inr False | Fatal_error \<Rightarrow> Inl (soci_error errMsg))\<rparr>"

subsection \<open>A socket layer\<close>

text \<open>
  \<^verbatim>\<open>cstring_to_integer\<close> for \<^verbatim>\<open>int\<close>: the whole string must be a decimal number, with an
  optional sign, that fits the type.
\<close>

definition sample_cstring_to_integer :: "string \<Rightarrow> 32 word option" where
  "sample_cstring_to_integer buf =
     (let b1 = dropWhile is_space buf;
          neg = (b1 \<noteq> [] \<and> hd b1 = CHR ''-'');
          b2 = (if b1 \<noteq> [] \<and> (hd b1 = CHR ''-'' \<or> hd b1 = CHR ''+'') then tl b1 else b1);
          v = (if neg then - dec_value b2 else dec_value b2)
      in if b2 = [] \<or> \<not> list_all is_digit b2 then None
         else if - (2 ^ 31) \<le> v \<and> v < 2 ^ 31 then Some (word_of_int v) else None)"

text \<open>The state of the sample layer is the list of the options set so far.\<close>

definition sample_sockets :: "build \<Rightarrow> (int \<times> sockopt \<times> 32 word) list socket_layer" where
  "sample_sockets b =
     \<lparr>build = b,
      cstring_to_integer = sample_cstring_to_integer,
      getsockname = (\<lambda>w sock. ((0, AF_INET), w)),
      setsockopt = (\<lambda>w sock opt v. (0, w @ [(sock, opt, v)])),
      last_error = (\<lambda>w. [])\<rparr>"

subsection \<open>A blob\<close>

text \<open>
  A blob whose engine declares \<open>declared\<close> bytes and delivers \<open>content\<close>: a read returns
  at most what was asked for.
\<close>

definition sample_blob :: "string \<Rightarrow> nat \<Rightarrow> unit blob_backend" where
  "sample_blob content declared =
     \<lparr>blob_assign = (\<lambda>quad. Inr ()),
      get_len = (\<lambda>b. Inr declared),
      read_from_start = (\<lambda>b toRead. Inr (take toRead content))\<rparr>"

section \<open>The specification's wording of two rules\<close>

text \<open>
  The sizing rule of the buffer allocator as the specification words it: the declared
  length plus a length prefix for varying text, the declared length for fixed text, a slot
  of the size of the engine's encoded timestamp for the three temporal categories, and the
  declared length otherwise. The width of the prefix and the size of the encoded timestamp
  are arguments.
\<close>

definition spec_buffer_size :: "nat \<Rightarrow> nat \<Rightarrow> XSQLVAR \<Rightarrow> nat" where
  "spec_buffer_size prefix_width encoded_timestamp_size var =
     (let ty = base_type (sqltype var); declared = nat (sint (sqllen var))
      in if ty = SQL_VARYING then declared + prefix_width
         else if ty = SQL_TEXT then declared
         else if ty = SQL_TIMESTAMP \<or> ty = SQL_TYPE_DATE \<or> ty = SQL_TYPE_TIME
         then encoded_timestamp_size
         else declared)"

text \<open>
  The parsing rule as the specification words it. A pattern with \<open>n\<close> fields matches when
  the scan converts all \<open>n\<close> of them. The patterns are tried in order and the first that
  matches gives the calendar value; a date alone is a date at midnight.
\<close>

definition full_match :: "nat \<Rightarrow> scan_result \<Rightarrow> 16 word list option" where
  "full_match n r =
     (case r of EOF \<Rightarrow> None | Converted vs \<Rightarrow> if length vs = n then Some vs else None)"

definition date_time_tm ::
  "16 word \<Rightarrow> 16 word \<Rightarrow> 16 word \<Rightarrow> 16 word \<Rightarrow> 16 word \<Rightarrow> 16 word \<Rightarrow> tm" where
  "date_time_tm y mo d h mi se =
     \<lparr>tm_sec = uint se, tm_min = uint mi, tm_hour = uint h, tm_mday = uint d,
      tm_mon = uint mo - 1, tm_year = uint y - 1900, tm_wday = 0, tm_yday = 0, tm_isdst = 0\<rparr>"

definition time_tm :: "16 word \<Rightarrow> 16 word \<Rightarrow> 16 word \<Rightarrow> tm" where
  "time_tm h mi se =
     \<lparr>tm_sec = uint se, tm_min = uint mi, tm_hour = uint h, tm_mday = 0,
      tm_mon = 0, tm_year = 0, tm_wday = 0, tm_yday = 0, tm_isdst = 0\<rparr>"

definition first_matching_pattern :: "(string \<Rightarrow> string \<Rightarrow> scan_result) \<Rightarrow> string \<Rightarrow> tm option" where
  "first_matching_pattern scan s =
     (case full_match 6 (scan s ''%hu-%hu-%hu %hu:%hu:%hu'') of
        Some vs \<Rightarrow> Some (date_time_tm (vs ! 0) (vs ! 1) (vs ! 2) (vs ! 3) (vs ! 4) (vs ! 5))
      | None \<Rightarrow>
          (case full_match 6 (scan s ''%hu-%hu-%huT%hu:%hu:%hu'') of
             Some vs \<Rightarrow> Some (date_time_tm (vs ! 0) (vs ! 1) (vs ! 2) (vs ! 3) (vs ! 4) (vs ! 5))
           | None \<Rightarrow>
               (case full_match 3 (scan s ''%hu-%hu-%hu'') of
                  Some vs \<Rightarrow> Some (date_time_tm (vs ! 0) (vs ! 1) (vs ! 2) 0 0 0)
                | None \<Rightarrow> None)))"

definition time_pattern :: "(string \<Rightarrow> string \<Rightarrow> scan_result) \<Rightarrow> string \<Rightarrow> tm option" where
  "time_pattern scan s =
     (case full_match 3 (scan s ''%hu:%hu:%hu'') of
        Some vs \<Rightarrow> Some (time_tm (vs ! 0) (vs ! 1) (vs ! 2))
      | None \<Rightarrow> None)"

section \<open>Properties of the Firebird marshaling functions\<close>

lemmas SQL_defs = SQL_VARYING_def SQL_TEXT_def SQL_LONG_def SQL_SHORT_def
  SQL_TIMESTAMP_def SQL_TYPE_TIME_def SQL_TYPE_DATE_def SQL_INT64_def

subsection \<open>Conversions between \<^verbatim>\<open>short\<close> and \<^verbatim>\<open>std::size_t\<close>\<close>

lemma size_t_of_short_nonneg:
  assumes "0 \<le> sint w"
  shows "uint (size_t_of_short w) = sint w"
proof -
  have "sint w < 2 ^ 15" using sint_lt [of w] by simp
  then have "sint w < 2 ^ 64" by simp
  with assms have "take_bit 64 (sint w) = sint w" by (intro take_bit_int_eq_self)
  moreover have "uint (size_t_of_short w) = take_bit 64 (sint w)"
    unfolding size_t_of_short_def scast_eq uint_word_of_int_eq by simp
  ultimately show ?thesis by (simp only:)
qed

lemma short_of_size_t_small:
  assumes "uint (n :: 64 word) \<le> sint (w :: 16 word)"
  shows "sint (ucast n :: 16 word) = uint n"
proof -
  have "sint w < 2 ^ 15" using sint_lt [of w] by simp
  with assms have "uint n < 2 ^ 15" by simp
  moreover have "(- (2 ^ 15) :: int) \<le> 0" by simp
  then have "- (2 ^ 15) \<le> uint n" using uint_ge_0 [of n] by linarith
  ultimately have "signed_take_bit 15 (uint n) = uint n"
    by (intro signed_take_bit_int_eq_self)
  moreover have "sint (ucast n :: 16 word) = signed_take_bit 15 (uint n)"
    unfolding ucast_eq sint_sbintrunc' by simp
  ultimately show ?thesis by (simp only:)
qed

lemma too_long_test:
  assumes "0 \<le> sint (w :: 16 word)" "sint w < uint (n :: 64 word)"
  shows "size_t_of_short w < n"
  using assms by (simp add: word_less_def size_t_of_short_nonneg)

lemma fits_test:
  assumes "uint (n :: 64 word) \<le> sint (w :: 16 word)"
  shows "\<not> size_t_of_short w < n"
proof -
  have "0 \<le> sint w" using assms uint_ge_0 [of n] by linarith
  then show ?thesis using assms by (simp add: word_less_def size_t_of_short_nonneg)
qed

lemma size_roundtrip:
  assumes "uint (n :: 64 word) \<le> sint (w :: 16 word)"
  shows "unat (size_t_of_short (ucast n)) = unat n"
proof -
  have "0 \<le> sint (ucast n :: 16 word)" using short_of_size_t_small [OF assms] by simp
  then have "uint (size_t_of_short (ucast n)) = uint n"
    using short_of_size_t_small [OF assms] by (simp only: size_t_of_short_nonneg)
  then show ?thesis by (simp only: unat_eq_nat_uint)
qed

subsection \<open>A value longer than the column\<close>

text \<open>
  Claim C1. On a fixed-text or varying-text column whose declared length is a length (it is
  not negative), \<^verbatim>\<open>setTextParam\<close> with a size greater than the declared length throws the
  \<^verbatim>\<open>soci_error\<close> "Value ... is too long (... bytes) to be stored in column of size ...
  bytes", and the buffer it leaves is the buffer it was given: no byte has been written.
\<close>

theorem setTextParam_value_too_long:
  assumes "base_type (sqltype var) = SQL_VARYING \<or> base_type (sqltype var) = SQL_TEXT"
    and "0 \<le> sint (sqllen var)"
    and "sint (sqllen var) < uint size'"
  shows "setTextParam P s size' buf var = (Some (soci_error (too_long_msg s size' var)), buf)"
  using assms by (auto simp add: setTextParam_def Let_def too_long_test)

theorem setTextParam_value_too_long_witness:
  "setTextParam linux_x86_64 ''hello!'' 6 ''#####''
     \<lparr>sqltype = 453, sqlscale = 0, sqllen = 5, sqldata = ''#####''\<rparr>
   = (Some (soci_error (too_long_msg ''hello!'' 6
        \<lparr>sqltype = 453, sqlscale = 0, sqllen = 5, sqldata = ''#####''\<rparr>)), ''#####'')"
  by (rule setTextParam_value_too_long) (simp_all add: base_type_def SQL_defs)

subsection \<open>Buffer operations within bounds\<close>

lemma and_then_None [simp]: "and_then (None, b) f = f b"
  by (simp add: and_then_def)

lemma and_then_Some [simp]: "and_then (Some e, b) f = (Some e, b)"
  by (simp add: and_then_def)

lemma unat_size_t_of_short:
  assumes "0 \<le> sint w"
  shows "unat (size_t_of_short w) = nat (sint w)"
  using size_t_of_short_nonneg [OF assms] by (simp only: unat_eq_nat_uint)

lemma unat_size_t_of_short_plus2:
  assumes "0 \<le> sint w"
  shows "unat (size_t_of_short w + 2) = nat (sint w) + 2"
proof -
  have "sint w < 2 ^ 15" using sint_lt [of w] by simp
  then have "nat (sint w) < 2 ^ 15" using assms by simp
  then have "unat (size_t_of_short w) + unat (2 :: 64 word) < 2 ^ LENGTH(64)"
    using unat_size_t_of_short [OF assms] by simp
  then have "unat (size_t_of_short w + 2) = unat (size_t_of_short w) + unat (2 :: 64 word)"
    by (rule unat_add_lem [THEN iffD1])
  then show ?thesis using unat_size_t_of_short [OF assms] by simp
qed

lemma length_resize: "length (resize out n) = n"
  by (auto simp add: resize_def min_def)

subsection \<open>The size of an allocated buffer\<close>

text \<open>
  Claim C2, as amended. For a descriptor whose declared length is not negative,
  \<^verbatim>\<open>allocBuffer\<close> asks for the declared length plus the two bytes of the \<^verbatim>\<open>short\<close> prefix
  for varying text, for \<^verbatim>\<open>sizeof(std::tm)\<close> bytes, the size of the calendar struct itself,
  for the three temporal types, and for exactly the declared length for fixed text and
  every other type; it returns a buffer of that many bytes unless the request exceeds
  what the heap can give.
\<close>

theorem allocBuffer_size_rule:
  assumes "0 \<le> sint (sqllen var)" and "sizeof_tm P < 2 ^ 64"
  shows "allocBuffer P var =
     (let ty = base_type (sqltype var);
          n = (if ty = SQL_VARYING then nat (sint (sqllen var)) + 2
               else if ty = SQL_TIMESTAMP \<or> ty = SQL_TYPE_TIME \<or> ty = SQL_TYPE_DATE
               then sizeof_tm P
               else nat (sint (sqllen var)))
      in if heap_limit P < n then Inl bad_alloc else Inr (map (fresh_byte P) [0..<n]))"
proof -
  have "unat (word_of_nat (sizeof_tm P) :: 64 word) = sizeof_tm P"
    using assms(2) by (simp add: unat_of_nat)
  then show ?thesis
    using assms(1)
    by (simp add: allocBuffer_def allocBuffer_size_def Let_def unat_size_t_of_short
        unat_size_t_of_short_plus2)
qed

theorem allocBuffer_size_rule_witness:
  "map_sum id length
     (allocBuffer linux_x86_64 \<lparr>sqltype = 449, sqlscale = 0, sqllen = 10, sqldata = []\<rparr>) = Inr 12
   \<and> map_sum id length
     (allocBuffer linux_x86_64 \<lparr>sqltype = 452, sqlscale = 0, sqllen = 10, sqldata = []\<rparr>) = Inr 10
   \<and> map_sum id length
     (allocBuffer linux_x86_64 \<lparr>sqltype = 570, sqlscale = 0, sqllen = 4, sqldata = []\<rparr>) = Inr 56"
  using allocBuffer_size_rule
      [of "\<lparr>sqltype = 449, sqlscale = 0, sqllen = 10, sqldata = []\<rparr>" linux_x86_64]
    allocBuffer_size_rule
      [of "\<lparr>sqltype = 452, sqlscale = 0, sqllen = 10, sqldata = []\<rparr>" linux_x86_64]
    allocBuffer_size_rule
      [of "\<lparr>sqltype = 570, sqlscale = 0, sqllen = 4, sqldata = []\<rparr>" linux_x86_64]
  by (simp add: base_type_def SQL_defs linux_x86_64_def)

text \<open>
  Claim C2 as stated fails. \<^verbatim>\<open>ISC_TIMESTAMP\<close>, the engine's encoded timestamp, is 8 bytes
  (a 4-byte date and a 4-byte time) and the prefix is 2 bytes; for a timestamp column the
  rule of the specification gives 8 bytes, and \<^verbatim>\<open>allocBuffer\<close> on the sample platform returns
  56 bytes, the size of its \<^verbatim>\<open>std::tm\<close>.
\<close>

theorem allocBuffer_temporal_counterexample:
  "map_sum id length
     (allocBuffer linux_x86_64 \<lparr>sqltype = 510, sqlscale = 0, sqllen = 8, sqldata = []\<rparr>)
   \<noteq> Inr (spec_buffer_size 2 8 \<lparr>sqltype = 510, sqlscale = 0, sqllen = 8, sqldata = []\<rparr>)"
  by (simp add: allocBuffer_def allocBuffer_size_def linux_x86_64_def spec_buffer_size_def
      base_type_def SQL_defs)

subsection \<open>Writing and reading back fixed text\<close>

text \<open>
  Claim C3. On a fixed-text column of declared length \<open>L\<close>, with a buffer of at least
  \<open>L\<close> bytes, writing \<open>size\<close> bytes of \<open>s\<close> with \<open>size \<le> L\<close> succeeds, and
  \<^verbatim>\<open>getTextParam\<close> on the buffer written returns exactly \<open>L\<close> bytes: the bytes written
  followed by \<open>L - size\<close> spaces, which are not stripped.
\<close>

theorem setTextParam_getTextParam_fixed:
  assumes ty: "base_type (sqltype var) = SQL_TEXT"
    and fits: "uint size' \<le> sint (sqllen var)"
    and src: "unat size' \<le> length s"
    and room: "nat (sint (sqllen var)) \<le> length buf"
  shows "\<exists>buf'. setTextParam P s size' buf var = (None, buf')
           \<and> getTextParam P (var\<lparr>sqldata := buf'\<rparr>)
               = Inr (take (unat size') s
                      @ replicate (nat (sint (sqllen var)) - unat size') CHR '' '')"
proof -
  let ?L = "nat (sint (sqllen var))"
  let ?n = "unat size'"
  let ?sz = "ucast size' :: 16 word"
  have nonneg: "0 \<le> sint (sqllen var)" using fits uint_ge_0 [of size'] by linarith
  have n_le: "?n \<le> ?L" using nat_mono [OF fits] by simp
  have un: "uint size' = int ?n" by (rule uint_nat)
  have sz: "sint ?sz = int ?n" using short_of_size_t_small [OF fits] un by (simp only:)
  have cnt: "unat (size_t_of_short ?sz) = ?n" by (rule size_roundtrip [OF fits])
  have nat_sz: "nat (sint ?sz) = ?n" by (simp only: sz nat_int)
  have not_varying: "SQL_TEXT \<noteq> SQL_VARYING" by (simp add: SQL_defs)
  define b1 where "b1 = take ?n s @ drop ?n buf"
  have len_b1: "length b1 = length buf" using src n_le room by (simp add: b1_def)
  have copy: "memcpy buf 0 s ?n = (None, b1)"
    using src n_le room by (simp add: memcpy_def b1_def)
  define b2 where
    "b2 = (if ?n < ?L then take ?n b1 @ replicate (?L - ?n) CHR '' '' @ drop ?L b1 else b1)"
  have pad: "(if sint ?sz < sint (sqllen var)
              then memset b1 (sint ?sz) CHR '' '' (nat (sint (sqllen var) - sint ?sz))
              else (None, b1)) = (None, b2)"
  proof (cases "?n < ?L")
    case True
    then have lt: "sint ?sz < sint (sqllen var)" using nonneg unfolding sz by linarith
    have amount: "nat (sint (sqllen var) - int ?n) = ?L - ?n"
      using nonneg by linarith
    have "memset b1 (sint ?sz) CHR '' '' (nat (sint (sqllen var) - sint ?sz))
          = memset b1 (int ?n) CHR '' '' (?L - ?n)"
      by (simp only: sz amount)
    moreover have "memset b1 (int ?n) CHR '' '' (?L - ?n) = (None, b2)"
      using True room len_b1 by (simp add: memset_def b2_def)
    ultimately show ?thesis using lt by (simp only: if_True)
  next
    case False
    then have "\<not> sint ?sz < sint (sqllen var)" using nonneg unfolding sz by linarith
    then show ?thesis using False by (simp add: b2_def)
  qed
  have written: "setTextParam P s size' buf var = (None, b2)"
    using ty not_varying fits_test [OF fits] by (simp add: setTextParam_def Let_def cnt copy pad)
  have len_b2: "?L \<le> length b2" using len_b1 room n_le by (simp add: b2_def)
  have prefix: "take ?L b2 = take ?n s @ replicate (?L - ?n) CHR '' ''"
    using src n_le room len_b1 by (auto simp add: b2_def b1_def min_def)
  have read: "getTextParam P (var\<lparr>sqldata := b2\<rparr>) = Inr (take ?L b2)"
    using ty not_varying nonneg len_b2 by (simp add: getTextParam_def std_string_def Let_def)
  show ?thesis using written read prefix by simp
qed

theorem setTextParam_getTextParam_fixed_witness:
  "\<exists>buf'. setTextParam linux_x86_64 ''abc'' 3 ''########''
             \<lparr>sqltype = 453, sqlscale = 0, sqllen = 6, sqldata = []\<rparr> = (None, buf')
     \<and> getTextParam linux_x86_64 \<lparr>sqltype = 453, sqlscale = 0, sqllen = 6, sqldata = buf'\<rparr>
         = Inr ''abc   ''"
proof -
  have spaces: "replicate 3 CHR '' '' = ''   ''" by (simp add: numeral_3_eq_3)
  show ?thesis
    using setTextParam_getTextParam_fixed
        [of "\<lparr>sqltype = 453, sqlscale = 0, sqllen = 6, sqldata = []\<rparr>" 3 "''abc''"
            "''########''" linux_x86_64]
    by (simp add: base_type_def SQL_defs spaces)
qed

subsection \<open>Types that are not temporal\<close>

text \<open>
  Claim C5. When the type code, without its nullability bit, is none of
  \<^verbatim>\<open>SQL_TIMESTAMP\<close>, \<^verbatim>\<open>SQL_TYPE_TIME\<close> and \<^verbatim>\<open>SQL_TYPE_DATE\<close>, both \<^verbatim>\<open>tmEncode\<close> and
  \<^verbatim>\<open>tmDecode\<close> throw the \<^verbatim>\<open>soci_error\<close> "Unexpected type of date/time field (type)" and
  \<^verbatim>\<open>tmEncode\<close> leaves the destination as it was; when it is one of the three, \<^verbatim>\<open>tmEncode\<close>
  throws no \<^verbatim>\<open>soci_error\<close> and \<^verbatim>\<open>tmDecode\<close> returns a calendar value.
\<close>

theorem tmEncode_tmDecode_unexpected_type:
  "(base_type type \<notin> {SQL_TIMESTAMP, SQL_TYPE_TIME, SQL_TYPE_DATE} \<longrightarrow>
      tmEncode P type t dst
        = (Some (soci_error
             (''Unexpected type of date/time field ('' @ show_int (sint type) @ '')'')), dst)
      \<and> tmDecode P type src t'
        = Inl (soci_error
             (''Unexpected type of date/time field ('' @ show_int (sint type) @ '')'')))
   \<and> (base_type type \<in> {SQL_TIMESTAMP, SQL_TYPE_TIME, SQL_TYPE_DATE} \<longrightarrow>
      (\<forall>msg. fst (tmEncode P type t dst) \<noteq> Some (soci_error msg))
      \<and> (\<exists>r. tmDecode P type src t' = Inr r))"
  by (auto simp add: tmEncode_def tmDecode_def Let_def unexpected_type_msg_def memcpy_def)

theorem tmEncode_tmDecode_unexpected_type_witness:
  "base_type 452 \<notin> {SQL_TIMESTAMP, SQL_TYPE_TIME, SQL_TYPE_DATE}
   \<and> tmEncode linux_x86_64 452 zero_tm ''########''
       = (Some (soci_error ''Unexpected type of date/time field (452)''), ''########'')
   \<and> tmDecode linux_x86_64 452 ''########'' zero_tm
       = Inl (soci_error ''Unexpected type of date/time field (452)'')
   \<and> base_type 571 \<in> {SQL_TIMESTAMP, SQL_TYPE_TIME, SQL_TYPE_DATE}
   \<and> fst (tmEncode linux_x86_64 571 zero_tm ''########'')
       \<noteq> Some (soci_error ''Unexpected type of date/time field (571)'')
   \<and> (\<exists>r. tmDecode linux_x86_64 571 ''########'' zero_tm = Inr r)"
  using tmEncode_tmDecode_unexpected_type
      [of 452 linux_x86_64 zero_tm "''########''" "''########''" zero_tm]
    tmEncode_tmDecode_unexpected_type
      [of 571 linux_x86_64 zero_tm "''########''" "''########''" zero_tm]
  by (simp add: base_type_def SQL_defs show_int_def show_nat.simps digit_char_def)

subsection \<open>A blob read short\<close>

text \<open>
  Claim C7. When the blob is opened, its length \<open>len_total\<close> obtained and the read
  returns: if fewer bytes than \<open>len_total\<close> were read, \<^verbatim>\<open>copy_from_blob\<close> throws the
  \<^verbatim>\<open>soci_error\<close> "Read N bytes instead of expected M from Firebird text blob object" with
  the two counts and so does not return; if the counts are equal it returns without error,
  and the output is the bytes read.
\<close>

theorem copy_from_blob_short_read:
  assumes "blob_assign B buf = Inr blob"
    and "get_len B blob = Inr len_total"
    and "read_from_start B blob len_total = Inr bytes"
  shows "(length bytes < len_total \<longrightarrow>
            fst (copy_from_blob B buf out)
              = Some (soci_error
                  (''Read '' @ show_nat (length bytes) @ '' bytes instead of expected ''
                    @ show_nat len_total @ '' from Firebird text blob object'')))
         \<and> (length bytes = len_total \<longrightarrow> copy_from_blob B buf out = (None, bytes))"
  using assms
  by (simp add: copy_from_blob_def Let_def memcpy_def length_resize and_then_def
      blob_short_read_msg_def)

theorem copy_from_blob_short_read_witness:
  "fst (copy_from_blob (sample_blob ''abc'' 5) ''12345678'' [])
     = Some (soci_error ''Read 3 bytes instead of expected 5 from Firebird text blob object'')
   \<and> copy_from_blob (sample_blob ''abcde'' 5) ''12345678'' [] = (None, ''abcde'')"
  using copy_from_blob_short_read
      [of "sample_blob ''abc'' 5" "''12345678''" "()" 5 "''abc''" "[]"]
    copy_from_blob_short_read
      [of "sample_blob ''abcde'' 5" "''12345678''" "()" 5 "''abcde''" "[]"]
  by (simp add: sample_blob_def show_nat.simps digit_char_def)

subsection \<open>Parsing dates and times\<close>

lemma length_3_explicit: "length vs = 3 \<Longrightarrow> vs = [vs ! 0, vs ! 1, vs ! 2]"
  by (rule nth_equalityI) (auto simp add: less_Suc_eq numeral_3_eq_3 numeral_2_eq_2)

lemma length_6_explicit:
  "length vs = 6 \<Longrightarrow> vs = [vs ! 0, vs ! 1, vs ! 2, vs ! 3, vs ! 4, vs ! 5]"
  by (rule nth_equalityI) (auto simp add: less_Suc_eq eval_nat_numeral)

lemma store_date_time:
  assumes "length vs = 6"
  shows "store_converted (ymd_ptrs @ hms_ptrs) vs l
         = \<lparr>l_year = vs ! 0, l_month = vs ! 1, l_day = vs ! 2,
            l_hour = vs ! 3, l_min = vs ! 4, l_sec = vs ! 5\<rparr>"
proof -
  have "store_converted (ymd_ptrs @ hms_ptrs) [vs ! 0, vs ! 1, vs ! 2, vs ! 3, vs ! 4, vs ! 5] l
        = \<lparr>l_year = vs ! 0, l_month = vs ! 1, l_day = vs ! 2,
           l_hour = vs ! 3, l_min = vs ! 4, l_sec = vs ! 5\<rparr>"
    by (simp add: ymd_ptrs_def hms_ptrs_def)
  then show ?thesis using length_6_explicit [OF assms] by simp
qed

lemma store_date:
  assumes "length vs = 3"
  shows "store_converted ymd_ptrs vs l = l\<lparr>l_year := vs ! 0, l_month := vs ! 1, l_day := vs ! 2\<rparr>"
proof -
  have "store_converted ymd_ptrs [vs ! 0, vs ! 1, vs ! 2] l
        = l\<lparr>l_year := vs ! 0, l_month := vs ! 1, l_day := vs ! 2\<rparr>"
    by (simp add: ymd_ptrs_def)
  then show ?thesis using length_3_explicit [OF assms] by simp
qed

lemma store_time:
  assumes "length vs = 3"
  shows "store_converted time_ptrs vs l = \<lparr>t_hour = vs ! 0, t_min = vs ! 1, t_sec = vs ! 2\<rparr>"
proof -
  have "store_converted time_ptrs [vs ! 0, vs ! 1, vs ! 2] l
        = \<lparr>t_hour = vs ! 0, t_min = vs ! 1, t_sec = vs ! 2\<rparr>"
    by (simp add: time_ptrs_def)
  then show ?thesis using length_3_explicit [OF assms] by simp
qed

lemma soci_sscanf_matched:
  assumes "full_match n (sscanf P s fmt) = Some vs"
  shows "soci_sscanf P s fmt ptrs l = (int n, store_converted ptrs vs l)" and "length vs = n"
  using assms
  by (auto simp add: soci_sscanf_def full_match_def split: scan_result.splits if_splits)

lemma soci_sscanf_unmatched:
  assumes "full_match n (sscanf P s fmt) = None"
  obtains r l' where "soci_sscanf P s fmt ptrs l = (r, l')" and "r \<noteq> int n"
  using assms
  by (cases "soci_sscanf P s fmt ptrs l")
     (auto simp add: soci_sscanf_def full_match_def split: scan_result.splits if_splits)

lemma scan_timestamp_first_match:
  "map_sum id timestamp_tm (scan_timestamp P s) =
     (case first_matching_pattern (sscanf P) s of
        None \<Rightarrow> Inl (soci_error ''Could not parse timestamp value.'')
      | Some t \<Rightarrow> Inr t)"
proof -
  let ?f1 = "''%hu-%hu-%hu %hu:%hu:%hu''" and ?f2 = "''%hu-%hu-%huT%hu:%hu:%hu''"
    and ?f3 = "''%hu-%hu-%hu''"
  define l0 where "l0 = \<lparr>l_year = indeterminate P, l_month = indeterminate P,
    l_day = indeterminate P, l_hour = indeterminate P, l_min = indeterminate P,
    l_sec = indeterminate P\<rparr>"
  show ?thesis
  proof (cases "full_match 6 (sscanf P s ?f1)")
    case (Some vs)
    have "soci_sscanf P s ?f1 (ymd_ptrs @ hms_ptrs) l0 = (6, store_converted (ymd_ptrs @ hms_ptrs) vs l0)"
      using soci_sscanf_matched(1) [OF Some] by simp
    then show ?thesis
      using Some soci_sscanf_matched(2) [OF Some]
      by (simp add: scan_timestamp_def first_matching_pattern_def Let_def store_date_time
          timestamp_tm_def date_time_tm_def zero_tm_def flip: l0_def)
  next
    case n1: None
    obtain r1 l1 where s1: "soci_sscanf P s ?f1 (ymd_ptrs @ hms_ptrs) l0 = (r1, l1)" and r1: "r1 \<noteq> 6"
      using soci_sscanf_unmatched [OF n1, of "ymd_ptrs @ hms_ptrs" l0] by auto
    show ?thesis
    proof (cases "full_match 6 (sscanf P s ?f2)")
      case (Some vs)
      have "soci_sscanf P s ?f2 (ymd_ptrs @ hms_ptrs) l1 = (6, store_converted (ymd_ptrs @ hms_ptrs) vs l1)"
        using soci_sscanf_matched(1) [OF Some] by simp
      then show ?thesis
        using n1 Some soci_sscanf_matched(2) [OF Some] s1 r1
        by (simp add: scan_timestamp_def first_matching_pattern_def Let_def store_date_time
            timestamp_tm_def date_time_tm_def zero_tm_def flip: l0_def)
    next
      case n2: None
      obtain r2 l2 where s2: "soci_sscanf P s ?f2 (ymd_ptrs @ hms_ptrs) l1 = (r2, l2)" and r2: "r2 \<noteq> 6"
        using soci_sscanf_unmatched [OF n2, of "ymd_ptrs @ hms_ptrs" l1] by auto
      let ?l3 = "l2\<lparr>l_hour := 0, l_min := 0, l_sec := 0\<rparr>"
      show ?thesis
      proof (cases "full_match 3 (sscanf P s ?f3)")
        case (Some vs)
        have "soci_sscanf P s ?f3 ymd_ptrs ?l3 = (3, store_converted ymd_ptrs vs ?l3)"
          using soci_sscanf_matched(1) [OF Some] by simp
        then show ?thesis
          using n1 n2 Some soci_sscanf_matched(2) [OF Some] s1 r1 s2 r2
          by (simp add: scan_timestamp_def first_matching_pattern_def Let_def store_date
              timestamp_tm_def date_time_tm_def zero_tm_def flip: l0_def)
      next
        case n3: None
        obtain r3 l4 where s3: "soci_sscanf P s ?f3 ymd_ptrs ?l3 = (r3, l4)" and r3: "r3 \<noteq> 3"
          using soci_sscanf_unmatched [OF n3, of ymd_ptrs ?l3] by auto
        show ?thesis
          using n1 n2 n3 s1 r1 s2 r2 s3 r3
          by (simp add: scan_timestamp_def first_matching_pattern_def Let_def flip: l0_def)
      qed
    qed
  qed
qed


lemma scan_time_pattern:
  "map_sum id time_only_tm (scan_time P s) =
     (case time_pattern (sscanf P) s of
        None \<Rightarrow> Inl (soci_error ''Could not parse timestamp value.'')
      | Some t \<Rightarrow> Inr t)"
proof -
  define l0 where "l0 = \<lparr>t_hour = indeterminate P, t_min = indeterminate P,
    t_sec = indeterminate P\<rparr>"
  show ?thesis
  proof (cases "full_match 3 (sscanf P s ''%hu:%hu:%hu'')")
    case (Some vs)
    have "soci_sscanf P s ''%hu:%hu:%hu'' time_ptrs l0 = (3, store_converted time_ptrs vs l0)"
      using soci_sscanf_matched(1) [OF Some] by simp
    then show ?thesis
      using Some soci_sscanf_matched(2) [OF Some]
      by (simp add: scan_time_def time_pattern_def Let_def store_time time_only_tm_def
          time_tm_def zero_tm_def flip: l0_def)
  next
    case None
    obtain r l1 where "soci_sscanf P s ''%hu:%hu:%hu'' time_ptrs l0 = (r, l1)" and "r \<noteq> 3"
      using soci_sscanf_unmatched [OF None, of time_ptrs l0] by auto
    then show ?thesis
      using None by (simp add: scan_time_def time_pattern_def Let_def flip: l0_def)
  qed
qed

lemma setTextParam_timestamp_branch:
  assumes "base_type (sqltype var) = SQL_TIMESTAMP \<or> base_type (sqltype var) = SQL_TYPE_DATE"
  shows "setTextParam P s size' buf var =
      (case scan_timestamp P s of Inl e \<Rightarrow> (Some e, buf)
       | Inr l \<Rightarrow> store_tm P var (timestamp_tm l) buf)"
  using assms
proof
  assume "base_type (sqltype var) = SQL_TIMESTAMP"
  then show ?thesis by (simp add: setTextParam_def Let_def SQL_defs)
next
  assume "base_type (sqltype var) = SQL_TYPE_DATE"
  then show ?thesis by (simp add: setTextParam_def Let_def SQL_defs)
qed

lemma setTextParam_time_branch:
  assumes "base_type (sqltype var) = SQL_TYPE_TIME"
  shows "setTextParam P s size' buf var =
      (case scan_time P s of Inl e \<Rightarrow> (Some e, buf)
       | Inr l \<Rightarrow> store_tm P var (time_only_tm l) buf)"
  using assms by (simp add: setTextParam_def Let_def SQL_defs)

text \<open>
  Claim C4. On a timestamp or date column \<^verbatim>\<open>setTextParam\<close> tries the formats
  \<^verbatim>\<open>%hu-%hu-%hu %hu:%hu:%hu\<close>, \<^verbatim>\<open>%hu-%hu-%huT%hu:%hu:%hu\<close> and \<^verbatim>\<open>%hu-%hu-%hu\<close> in this order and
  stores the calendar value of the first that converts all its fields, whatever the
  uninitialised variables held; when only the date format does, hour, minute and second are
  zero. On a time column it takes \<^verbatim>\<open>%hu:%hu:%hu\<close>. When no format converts all its fields the
  call throws the \<^verbatim>\<open>soci_error\<close> "Could not parse timestamp value." and leaves the buffer
  as it was.
\<close>

theorem setTextParam_temporal_patterns:
  "(base_type (sqltype var) = SQL_TIMESTAMP \<or> base_type (sqltype var) = SQL_TYPE_DATE \<longrightarrow>
      setTextParam P s size' buf var =
        (case first_matching_pattern (sscanf P) s of
           None \<Rightarrow> (Some (soci_error ''Could not parse timestamp value.''), buf)
         | Some t \<Rightarrow> store_tm P var t buf))
   \<and> (base_type (sqltype var) = SQL_TYPE_TIME \<longrightarrow>
      setTextParam P s size' buf var =
        (case time_pattern (sscanf P) s of
           None \<Rightarrow> (Some (soci_error ''Could not parse timestamp value.''), buf)
         | Some t \<Rightarrow> store_tm P var t buf))"
proof (intro conjI impI)
  assume ty: "base_type (sqltype var) = SQL_TIMESTAMP \<or> base_type (sqltype var) = SQL_TYPE_DATE"
  show "setTextParam P s size' buf var =
        (case first_matching_pattern (sscanf P) s of
           None \<Rightarrow> (Some (soci_error ''Could not parse timestamp value.''), buf)
         | Some t \<Rightarrow> store_tm P var t buf)"
    using scan_timestamp_first_match [of P s]
    unfolding setTextParam_timestamp_branch [OF ty]
    by (cases "scan_timestamp P s"; cases "first_matching_pattern (sscanf P) s") simp_all
next
  assume ty: "base_type (sqltype var) = SQL_TYPE_TIME"
  show "setTextParam P s size' buf var =
        (case time_pattern (sscanf P) s of
           None \<Rightarrow> (Some (soci_error ''Could not parse timestamp value.''), buf)
         | Some t \<Rightarrow> store_tm P var t buf)"
    using scan_time_pattern [of P s]
    unfolding setTextParam_time_branch [OF ty]
    by (cases "scan_time P s"; cases "time_pattern (sscanf P) s") simp_all
qed

lemma sscanf_linux: "sscanf linux_x86_64 = c_sscanf"
  by (simp add: linux_x86_64_def)

lemma sample_scans:
  "c_sscanf ''2021-03-04 05:06:07'' ''%hu-%hu-%hu %hu:%hu:%hu'' = Converted [2021, 3, 4, 5, 6, 7]"
  "c_sscanf ''2021-03-04T05:06:07'' ''%hu-%hu-%hu %hu:%hu:%hu'' = Converted [2021, 3, 4]"
  "c_sscanf ''2021-03-04T05:06:07'' ''%hu-%hu-%huT%hu:%hu:%hu'' = Converted [2021, 3, 4, 5, 6, 7]"
  "c_sscanf ''2021-03-04'' ''%hu-%hu-%hu %hu:%hu:%hu'' = Converted [2021, 3, 4]"
  "c_sscanf ''2021-03-04'' ''%hu-%hu-%huT%hu:%hu:%hu'' = Converted [2021, 3, 4]"
  "c_sscanf ''2021-03-04'' ''%hu-%hu-%hu'' = Converted [2021, 3, 4]"
  "c_sscanf ''2021-03-04 05:06'' ''%hu-%hu-%hu %hu:%hu:%hu'' = Converted [2021, 3, 4, 5, 6]"
  "c_sscanf ''2021-03-04 05:06'' ''%hu-%hu-%huT%hu:%hu:%hu'' = Converted [2021, 3, 4]"
  "c_sscanf ''2021-03-04 05:06'' ''%hu-%hu-%hu'' = Converted [2021, 3, 4]"
  "c_sscanf ''05:06:07'' ''%hu:%hu:%hu'' = Converted [5, 6, 7]"
  "c_sscanf ''yesterday'' ''%hu-%hu-%hu %hu:%hu:%hu'' = Converted []"
  "c_sscanf ''yesterday'' ''%hu-%hu-%huT%hu:%hu:%hu'' = Converted []"
  "c_sscanf ''yesterday'' ''%hu-%hu-%hu'' = Converted []"
  "c_sscanf ''noon'' ''%hu:%hu:%hu'' = Converted []"
  by code_simp+

theorem setTextParam_temporal_patterns_witness:
  "setTextParam linux_x86_64 ''2021-03-04 05:06:07'' 19 (replicate 56 CHR ''#'')
       \<lparr>sqltype = 510, sqlscale = 0, sqllen = 8, sqldata = []\<rparr>
     = store_tm linux_x86_64 \<lparr>sqltype = 510, sqlscale = 0, sqllen = 8, sqldata = []\<rparr>
         (date_time_tm 2021 3 4 5 6 7) (replicate 56 CHR ''#'')
   \<and> setTextParam linux_x86_64 ''2021-03-04T05:06:07'' 19 (replicate 56 CHR ''#'')
       \<lparr>sqltype = 510, sqlscale = 0, sqllen = 8, sqldata = []\<rparr>
     = store_tm linux_x86_64 \<lparr>sqltype = 510, sqlscale = 0, sqllen = 8, sqldata = []\<rparr>
         (date_time_tm 2021 3 4 5 6 7) (replicate 56 CHR ''#'')
   \<and> setTextParam linux_x86_64 ''2021-03-04'' 10 (replicate 56 CHR ''#'')
       \<lparr>sqltype = 570, sqlscale = 0, sqllen = 4, sqldata = []\<rparr>
     = store_tm linux_x86_64 \<lparr>sqltype = 570, sqlscale = 0, sqllen = 4, sqldata = []\<rparr>
         (date_time_tm 2021 3 4 0 0 0) (replicate 56 CHR ''#'')
   \<and> setTextParam linux_x86_64 ''2021-03-04 05:06'' 16 (replicate 56 CHR ''#'')
       \<lparr>sqltype = 510, sqlscale = 0, sqllen = 8, sqldata = []\<rparr>
     = store_tm linux_x86_64 \<lparr>sqltype = 510, sqlscale = 0, sqllen = 8, sqldata = []\<rparr>
         (date_time_tm 2021 3 4 0 0 0) (replicate 56 CHR ''#'')
   \<and> setTextParam linux_x86_64 ''05:06:07'' 8 (replicate 56 CHR ''#'')
       \<lparr>sqltype = 560, sqlscale = 0, sqllen = 4, sqldata = []\<rparr>
     = store_tm linux_x86_64 \<lparr>sqltype = 560, sqlscale = 0, sqllen = 4, sqldata = []\<rparr>
         (time_tm 5 6 7) (replicate 56 CHR ''#'')
   \<and> setTextParam linux_x86_64 ''yesterday'' 9 (replicate 56 CHR ''#'')
       \<lparr>sqltype = 510, sqlscale = 0, sqllen = 8, sqldata = []\<rparr>
     = (Some (soci_error ''Could not parse timestamp value.''), replicate 56 CHR ''#'')
   \<and> setTextParam linux_x86_64 ''noon'' 4 (replicate 56 CHR ''#'')
       \<lparr>sqltype = 560, sqlscale = 0, sqllen = 4, sqldata = []\<rparr>
     = (Some (soci_error ''Could not parse timestamp value.''), replicate 56 CHR ''#'')"
  using setTextParam_temporal_patterns
      [of "\<lparr>sqltype = 510, sqlscale = 0, sqllen = 8, sqldata = []\<rparr>" linux_x86_64
          "''2021-03-04 05:06:07''" 19 "replicate 56 CHR ''#''"]
    setTextParam_temporal_patterns
      [of "\<lparr>sqltype = 510, sqlscale = 0, sqllen = 8, sqldata = []\<rparr>" linux_x86_64
          "''2021-03-04T05:06:07''" 19 "replicate 56 CHR ''#''"]
    setTextParam_temporal_patterns
      [of "\<lparr>sqltype = 570, sqlscale = 0, sqllen = 4, sqldata = []\<rparr>" linux_x86_64
          "''2021-03-04''" 10 "replicate 56 CHR ''#''"]
    setTextParam_temporal_patterns
      [of "\<lparr>sqltype = 510, sqlscale = 0, sqllen = 8, sqldata = []\<rparr>" linux_x86_64
          "''2021-03-04 05:06''" 16 "replicate 56 CHR ''#''"]
    setTextParam_temporal_patterns
      [of "\<lparr>sqltype = 560, sqlscale = 0, sqllen = 4, sqldata = []\<rparr>" linux_x86_64
          "''05:06:07''" 8 "replicate 56 CHR ''#''"]
    setTextParam_temporal_patterns
      [of "\<lparr>sqltype = 510, sqlscale = 0, sqllen = 8, sqldata = []\<rparr>" linux_x86_64
          "''yesterday''" 9 "replicate 56 CHR ''#''"]
    setTextParam_temporal_patterns
      [of "\<lparr>sqltype = 560, sqlscale = 0, sqllen = 4, sqldata = []\<rparr>" linux_x86_64
          "''noon''" 4 "replicate 56 CHR ''#''"]
  by (simp add: base_type_def SQL_defs sscanf_linux first_matching_pattern_def time_pattern_def
      full_match_def sample_scans)

section \<open>Properties of the PostgreSQL session functions\<close>

subsection \<open>The search path tokenizer\<close>

lemma tokenize_in_quotes:
  "CHR 0x22 \<notin> set w \<Longrightarrow>
   tokenize (w @ rest) True schema schema_names = tokenize rest True (schema @ w) schema_names"
  by (induction w arbitrary: schema) auto

text \<open>
  Claim C6. In the loop of \<^verbatim>\<open>get_schema_names\<close> a double quote toggles \<^verbatim>\<open>quoted\<close> and is not
  part of any entry; while \<^verbatim>\<open>quoted\<close> is set a comma or a space is appended to the current
  entry like any other character, so a quoted segment without a quote inside is appended
  whole; outside quotes a comma ends the entry and a space is skipped. The search path
  \<^verbatim>\<open>"a,b", c\<close> gives the two entries \<^verbatim>\<open>a,b\<close> and \<^verbatim>\<open>c\<close>, in this order.
\<close>

theorem tokenize_quoted_separators_literal:
  "(CHR 0x22 \<notin> set w \<longrightarrow>
      tokenize (CHR 0x22 # w @ CHR 0x22 # rest) False schema schema_names
        = tokenize rest False (schema @ w) schema_names)
   \<and> tokenize (CHR 0x22 # rest) quoted schema schema_names
        = tokenize rest (\<not> quoted) schema schema_names
   \<and> tokenize (CHR '','' # rest) True schema schema_names
        = tokenize rest True (schema @ '','') schema_names
   \<and> tokenize (CHR '' '' # rest) True schema schema_names
        = tokenize rest True (schema @ '' '') schema_names
   \<and> tokenize (CHR '','' # rest) False schema schema_names
        = tokenize rest False [] (schema_names @ [schema])
   \<and> tokenize (CHR '' '' # rest) False schema schema_names
        = tokenize rest False schema schema_names
   \<and> split_search_path ([CHR 0x22] @ ''a,b'' @ [CHR 0x22] @ '', c'') = [''a,b'', ''c'']"
proof -
  have "CHR 0x22 \<notin> set w \<Longrightarrow>
      tokenize (CHR 0x22 # w @ CHR 0x22 # rest) False schema schema_names
        = tokenize rest False (schema @ w) schema_names"
    using tokenize_in_quotes [of w "CHR 0x22 # rest" schema schema_names] by simp
  moreover have "split_search_path ([CHR 0x22] @ ''a,b'' @ [CHR 0x22] @ '', c'') = [''a,b'', ''c'']"
    by (simp add: split_search_path_def)
  ultimately show ?thesis by simp
qed

theorem tokenize_quoted_separators_literal_witness:
  "CHR 0x22 \<notin> set ''my schema, v2''
   \<and> tokenize ([CHR 0x22] @ ''my schema, v2'' @ [CHR 0x22] @ '', public'') False [] []
       = tokenize '', public'' False ''my schema, v2'' []
   \<and> split_search_path ([CHR 0x22] @ ''my schema, v2'' @ [CHR 0x22] @ '', public'')
       = [''my schema, v2'', ''public'']"
  using tokenize_quoted_separators_literal [of "''my schema, v2''" "'', public''" "[]" "[]"]
  by (simp add: split_search_path_def)

subsection \<open>The health check\<close>

text \<open>
  Claim C8. When \<^verbatim>\<open>PQstatus\<close> is not \<^verbatim>\<open>CONNECTION_OK\<close>, \<^verbatim>\<open>is_connected\<close> returns false and
  sends nothing: the connection and the log of commands are unchanged. Otherwise it sends
  exactly one command, the comment \<^verbatim>\<open>/* ping */\<close>, and returns whether \<^verbatim>\<open>PQstatus\<close> of the
  connection after this round trip is \<^verbatim>\<open>CONNECTION_OK\<close>. The log changes nothing in what
  the function returns.
\<close>

theorem is_connected_round_trip:
  "(PQstatus L conn \<noteq> CONNECTION_OK \<longrightarrow>
      is_connected (logged L) (conn, log) = (False, (conn, log)))
   \<and> (PQstatus L conn = CONNECTION_OK \<longrightarrow>
      is_connected (logged L) (conn, log)
        = (PQstatus L (snd (PQexec L conn ''/* ping */'')) = CONNECTION_OK,
           (snd (PQexec L conn ''/* ping */''), log @ [''/* ping */''])))
   \<and> is_connected L conn
        = (fst (is_connected (logged L) (conn, log)), fst (snd (is_connected (logged L) (conn, log))))"
  by (simp add: is_connected_def logged_def Let_def split: prod.splits)

theorem is_connected_round_trip_witness:
  "is_connected (logged (sample_libpq [] ''alice'')) ((CONNECTION_BAD, True), []) = (False, ((CONNECTION_BAD, True), []))
   \<and> is_connected (logged (sample_libpq [] ''alice'')) ((CONNECTION_OK, False), []) = (False, ((CONNECTION_BAD, False), [''/* ping */'']))
   \<and> is_connected (logged (sample_libpq [] ''alice'')) ((CONNECTION_OK, True), []) = (True, ((CONNECTION_OK, True), [''/* ping */'']))"
  using is_connected_round_trip [of "sample_libpq [] ''alice''" "(CONNECTION_BAD, True)" "[]"]
    is_connected_round_trip [of "sample_libpq [] ''alice''" "(CONNECTION_OK, False)" "[]"]
    is_connected_round_trip [of "sample_libpq [] ''alice''" "(CONNECTION_OK, True)" "[]"]
  by (simp add: sample_libpq_def)

subsection \<open>The timeout option\<close>

text \<open>
  Claim C9. When the option value parses as an integer that is zero or negative,
  \<^verbatim>\<open>set_tcp_user_timeout\<close> returns without an error and without a system call, in each of
  its three builds: the state of the socket layer and the log of calls are unchanged.
\<close>

theorem set_tcp_user_timeout_ignores_nonpositive:
  assumes "cstring_to_integer S (c_str timeoutStr) = Some timeoutMs"
    and "sint timeoutMs \<le> 0"
  shows "set_tcp_user_timeout S sock timeoutStr w = (None, w)
         \<and> set_tcp_user_timeout (traced S) sock timeoutStr (w, calls) = (None, (w, calls))"
proof (cases "timeoutMs = 0")
  case True
  then show ?thesis using assms(1) by (simp add: set_tcp_user_timeout_def traced_def)
next
  case False
  then have "sint timeoutMs \<noteq> 0" by (simp add: signed_eq_0_iff)
  then have "sint timeoutMs < 0" using assms(2) by simp
  then show ?thesis using assms(1) False by (simp add: set_tcp_user_timeout_def traced_def)
qed

lemma sample_parses:
  "sample_cstring_to_integer (c_str ''0'') = Some 0"
  "sample_cstring_to_integer (c_str ''-5'') = Some (-5)"
  by code_simp+

theorem set_tcp_user_timeout_ignores_nonpositive_witness:
  "set_tcp_user_timeout (traced (sample_sockets With_TCP_USER_TIMEOUT)) 3 ''0'' ([], []) = (None, ([], []))
   \<and> set_tcp_user_timeout (traced (sample_sockets Windows)) 3 ''-5'' ([], []) = (None, ([], []))"
  using set_tcp_user_timeout_ignores_nonpositive [of "sample_sockets With_TCP_USER_TIMEOUT" "''0''" 0 3 "[]" "[]"]
    set_tcp_user_timeout_ignores_nonpositive [of "sample_sockets Windows" "''-5''" "-5" 3 "[]" "[]"]
  by (simp add: sample_sockets_def sample_parses)

subsection \<open>The default search path\<close>

text \<open>
  Claim C10. When \<^verbatim>\<open>SHOW search_path\<close> has data and its value is empty (or it has no row),
  and \<^verbatim>\<open>SELECT current_user\<close> returns a row, \<^verbatim>\<open>get_schema_names\<close> tokenizes the default
  \<^verbatim>\<open>"$user", public\<close> and returns two names: the quoted current user name, then the quoted
  \<^verbatim>\<open>public\<close>.
\<close>

theorem get_schema_names_empty_search_path:
  assumes "PQexec L conn ''SHOW search_path'' = (r, conn1)"
    and "check_for_data L r ''search_path doesn't exist'' = Inr True"
    and "(if PQntuples L r > 0 then PQgetvalue L r 0 0 else []) = []"
    and "PQexec L conn1 ''SELECT current_user'' = (r2, conn2)"
    and "check_for_data L r2 ''current_user is not defined'' = Inr True"
    and "PQntuples L r2 > 0"
  shows "get_schema_names L conn
         = Inr ([quote L conn2 (PQgetvalue L r2 0 0), quote L conn2 ''public''], conn2)"
proof -
  have "split_search_path default_search_path = [''$user'', ''public'']"
    by (simp add: split_search_path_def default_search_path_def)
  then show ?thesis
    using assms by (simp add: get_schema_names_def Let_def)
qed

theorem get_schema_names_empty_search_path_witness:
  "get_schema_names (sample_libpq [] ''alice'') (CONNECTION_OK, True)
     = Inr ([[CHR 0x27] @ ''alice'' @ [CHR 0x27], [CHR 0x27] @ ''public'' @ [CHR 0x27]], (CONNECTION_OK, True))"
  using get_schema_names_empty_search_path
    [of "sample_libpq [] ''alice''" "(CONNECTION_OK, True)" "Tuples [[[]]]" "(CONNECTION_OK, True)"
        "Tuples [[''alice'']]" "(CONNECTION_OK, True)"]
  by (simp add: sample_libpq_def quote_def)

end
